theory Spec2Isabelle
  imports Complex_Main "HOL-Library.Finite_Map" "HOL-Library.Log_Nat"
    "HOL-Library.Code_Target_Numeral"
begin

section \<open>The relational store\<close>

text \<open>
  The tables are the ones the V2 and V3 migrations create. A nullable column is an
  \<open>option\<close>, \<open>None\<close> being SQL NULL. A UUID is taken as its value and a timestamp as a
  count of microseconds: the conversion of request text into \<open>uuid\<close> and \<open>timestamp\<close>
  values happens in the driver and the store and is not part of the model, so a request
  carries such values already decoded. A text is a list of characters with codes below
  256, the code 0 being the NUL that the store takes in no text. A JSON object is a
  finite map from keys to values: the order of its members is no part of it.
\<close>

type_synonym uuid = nat
type_synonym timestamp = int

datatype json =
    JNull
  | JBool bool
  | JNum int
  | JStr string
  | JArr "json list"
  | JObj "(string, json) fmap"

text \<open>Table \<open>teams\<close>.\<close>

record team =
  t_id :: uuid
  t_name :: string
  t_organization :: "string option"

text \<open>Table \<open>users\<close> (the columns the handlers read).\<close>

record user =
  u_id :: uuid
  u_username :: string
  u_full_name :: "string option"
  u_team_id :: "uuid option"
  u_role :: "string option"

text \<open>Table \<open>evidence_repository_v2\<close>, with the five columns the V3 migration adds.\<close>

record evidence =
  e_id :: uuid
  e_task_id :: "uuid option"
  e_user_id :: "uuid option"
  e_team_id :: "uuid option"
  e_task_category :: "string option"
  e_evidence_type :: "string option"
  e_evidence_data :: "json option"
  e_prompt_text :: "string option"
  e_completion_text :: "string option"
  e_conversation_id :: "uuid option"
  e_knowledge_pattern_id :: "string option"
  e_coding_standard_id :: "string option"
  e_requirement_id :: "string option"
  e_created_at :: "timestamp option"
  e_visibility :: "string option"
  e_project_id :: "uuid option"
  e_environment_id :: "uuid option"
  e_repo_branch :: "string option"
  e_commit_sha :: "string option"
  e_git_remote :: "string option"

text \<open>Table \<open>evidence_repository\<close> of the first schema, written by the legacy handler.\<close>

record legacy_evidence =
  l_id :: nat
  l_task_id :: "string option"
  l_task_category :: string
  l_evidence_type :: string
  l_evidence_data :: json
  l_user_id :: "string option"
  l_project_id :: "string option"
  l_created_at :: "timestamp option"
  l_metadata :: "json option"

text \<open>Table \<open>hook_configurations_v2\<close>, with \<open>project_id\<close> and \<open>scope\<close> of the V3 migration.\<close>

record hook =
  h_id :: uuid
  h_name :: string
  h_category :: "string option"
  h_hook_type :: string
  h_script_content :: string
  h_enabled :: "bool option"
  h_team_id :: "uuid option"
  h_version :: "int option"
  h_created_by :: "uuid option"
  h_created_at :: "timestamp option"
  h_updated_at :: "timestamp option"
  h_project_id :: "uuid option"
  h_scope :: "string option"

text \<open>Table \<open>project_knowledge_links\<close>.\<close>

record knowledge_link =
  k_id :: uuid
  k_project_id :: "uuid option"
  k_knowledge_type :: string
  k_knowledge_id :: string
  k_scope :: "string option"
  k_created_at :: "timestamp option"
  k_created_by :: "uuid option"

record store =
  st_teams :: "team list"
  st_users :: "user list"
  st_evidence :: "evidence list"
  st_legacy :: "legacy_evidence list"
  st_hooks :: "hook list"
  st_links :: "knowledge_link list"

text \<open>
  What \<open>authMiddleware\<close> leaves in \<open>req.user\<close>: the caller's row of \<open>users\<close>, left-joined
  with the caller's team for \<open>organization\<close>. The team is NULL for a user without one.
\<close>

record req_user =
  ru_id :: uuid
  ru_team_id :: "uuid option"
  ru_role :: "string option"
  ru_organization :: "string option"

text \<open>The handlers answer 400, 401, 404 or 500 on their failure paths.\<close>

datatype error = Http400 | Http401 | Http404 | Http500

text \<open>The organization of a team; NULL for no team and for a team without one.\<close>

definition organization_of :: "store \<Rightarrow> uuid option \<Rightarrow> string option" where
  "organization_of st tid =
     (case find (\<lambda>t. Some (t_id t) = tid) (st_teams st) of
        None \<Rightarrow> None
      | Some t \<Rightarrow> t_organization t)"

text \<open>
  \<open>authMiddleware\<close>, after the token has been verified and has given the user's id: the
  row of \<open>users\<close> with that id, left-joined with \<open>teams\<close>, becomes \<open>req.user\<close>; 401 when
  there is no such user.
\<close>

definition authMiddleware :: "store \<Rightarrow> uuid \<Rightarrow> error + req_user" where
  "authMiddleware st uid =
     (case find (\<lambda>u. u_id u = uid) (st_users st) of
        None \<Rightarrow> Inl Http401
      | Some u \<Rightarrow> Inr \<lparr>ru_id = u_id u, ru_team_id = u_team_id u, ru_role = u_role u,
                       ru_organization = organization_of st (u_team_id u)\<rparr>)"

section \<open>Text columns and JavaScript values\<close>

text \<open>
  The store takes no text that holds a NUL. A \<open>VARCHAR(n)\<close> column refuses a longer
  text, unless the excess is blanks only, which the store cuts off. \<open>None\<close> is the
  refusal, which the handlers turn into a 500.
\<close>

definition text_in :: "string \<Rightarrow> string option" where
  "text_in s = (if CHR 0x00 \<in> set s then None else Some s)"

definition text_null :: "string option \<Rightarrow> string option option" where
  "text_null v = (case v of None \<Rightarrow> Some None | Some s \<Rightarrow> map_option Some (text_in s))"

definition varchar :: "nat \<Rightarrow> string \<Rightarrow> string option" where
  "varchar n s =
     (if CHR 0x00 \<in> set s then None
      else if length s \<le> n then Some s
      else if list_all (\<lambda>c. c = CHR '' '') (drop n s) then Some (take n s)
      else None)"

definition varchar_null :: "nat \<Rightarrow> string option \<Rightarrow> string option option" where
  "varchar_null n v = (case v of None \<Rightarrow> Some None | Some s \<Rightarrow> map_option Some (varchar n s))"

text \<open>No string and no key of a JSON value holds a NUL.\<close>

primrec nul_free :: "json \<Rightarrow> bool" where
  "nul_free JNull = True"
| "nul_free (JBool b) = True"
| "nul_free (JNum n) = True"
| "nul_free (JStr s) = (CHR 0x00 \<notin> set s)"
| "nul_free (JArr xs) = list_all id (map nul_free xs)"
| "nul_free (JObj m) = fmpred (\<lambda>k ok. CHR 0x00 \<notin> set k \<and> ok) (fmmap nul_free m)"

text \<open>
  What a \<open>jsonb\<close> column ends up holding when a handler passes a JavaScript value as a
  query parameter. The driver sends \<open>null\<close> as NULL, an object as its JSON text, an
  array as an array literal of the store (\<open>{}\<close> for the empty array, and for any other
  array a text in braces without a colon), and a number, a boolean or a string as its
  own text; the store reads what it gets as JSON text. So an object arrives as it is,
  unless a string or key of it holds a NUL, which the store refuses; the empty array
  arrives as the empty object; any other array is refused; a number and a boolean
  arrive as they are; and a string is read as JSON text by the store's reader
  \<open>jsonb_in\<close>, which is no code of this repository and is a parameter here. The outer
  \<open>None\<close> is the refusal, the inner one NULL.
\<close>

definition jsonb_column :: "(string \<Rightarrow> json option) \<Rightarrow> json option \<Rightarrow> json option option" where
  "jsonb_column jsonb_in v =
     (case v of
        None \<Rightarrow> Some None
      | Some JNull \<Rightarrow> Some None
      | Some (JBool b) \<Rightarrow> Some (Some (JBool b))
      | Some (JNum n) \<Rightarrow> Some (Some (JNum n))
      | Some (JStr s) \<Rightarrow> if CHR 0x00 \<in> set s then None else map_option Some (jsonb_in s)
      | Some (JArr xs) \<Rightarrow> if xs = [] then Some (Some (JObj fmempty)) else None
      | Some (JObj m) \<Rightarrow> if nul_free (JObj m) then Some (Some (JObj m)) else None)"

text \<open>JavaScript truthiness of a request field: \<open>!x\<close> is true for a missing field, for
  the empty string, for \<open>null\<close>, \<open>false\<close> and \<open>0\<close>.\<close>

definition truthy_text :: "string option \<Rightarrow> bool" where
  "truthy_text v = (case v of None \<Rightarrow> False | Some s \<Rightarrow> s \<noteq> [])"

fun truthy_json :: "json option \<Rightarrow> bool" where
  "truthy_json None = False"
| "truthy_json (Some JNull) = False"
| "truthy_json (Some (JBool b)) = b"
| "truthy_json (Some (JNum n)) = (n \<noteq> 0)"
| "truthy_json (Some (JStr s)) = (s \<noteq> [])"
| "truthy_json (Some (JArr xs)) = True"
| "truthy_json (Some (JObj m)) = True"

text \<open>
  \<open>parseInt\<close> without a radix: leading white space is dropped, then an optional sign,
  then an optional \<open>0x\<close> prefix that selects base 16, then the longest run of digits;
  no digit gives NaN (\<open>None\<close>). White space, among the characters below 256, is tab,
  line feed, vertical tab, form feed, carriage return, the blank and the no-break
  space. The result is a JavaScript number: an integer of more than 53 bits is rounded
  to the nearest one with 53 significant bits, to the even one when two are as near.
\<close>

definition is_space :: "char \<Rightarrow> bool" where
  "is_space c =
     (c \<in> set [CHR 0x09, CHR 0x0A, CHR 0x0B, CHR 0x0C, CHR 0x0D, CHR 0x20, CHR 0xA0])"

definition to_double :: "nat \<Rightarrow> nat" where
  "to_double n =
     (if n < 2 ^ 53 then n
      else let e = floorlog 2 n - 53; q = n div 2 ^ e; r = n mod 2 ^ e; h = 2 ^ (e - 1)
           in (if h < r \<or> (r = h \<and> odd q) then q + 1 else q) * 2 ^ e)"

definition digit_of :: "nat \<Rightarrow> char \<Rightarrow> nat option" where
  "digit_of R c =
     (let n = (of_char c :: nat);
          v = (if 48 \<le> n \<and> n \<le> 57 then Some (n - 48)
               else if 97 \<le> n \<and> n \<le> 122 then Some (n - 87)
               else if 65 \<le> n \<and> n \<le> 90 then Some (n - 55)
               else None)
      in case v of None \<Rightarrow> None | Some d \<Rightarrow> if d < R then Some d else None)"

definition digits_value :: "nat \<Rightarrow> string \<Rightarrow> nat" where
  "digits_value R ds = foldl (\<lambda>a c. a * R + the (digit_of R c)) 0 ds"

definition parseInt :: "string \<Rightarrow> int option" where
  "parseInt s =
     (let s1 = dropWhile is_space s;
          neg = (take 1 s1 = ''-'');
          s2 = (if take 1 s1 = ''-'' \<or> take 1 s1 = ''+'' then drop 1 s1 else s1);
          hex = (take 2 s2 = ''0x'' \<or> take 2 s2 = ''0X'');
          R = (if hex then 16 else 10);
          s3 = (if hex then drop 2 s2 else s2);
          ds = takeWhile (\<lambda>c. digit_of R c \<noteq> None) s3
      in if ds = [] then None
         else Some ((if neg then - 1 else 1) * int (to_double (digits_value R ds))))"

section \<open>Evidence search (\<open>GET /api/evidence/search\<close>)\<close>

text \<open>
  The query string. Every parameter is optional. \<open>category\<close>, \<open>visibility\<close>, \<open>limit\<close> and
  \<open>offset\<close> are the text the caller sent; \<open>user_id\<close>, \<open>from_date\<close> and \<open>to_date\<close> are the
  decoded values, \<open>None\<close> also standing for an empty parameter, which the handler's
  \<open>if (x)\<close> tests skip like a missing one. \<open>project_id\<close> is read from the query and never
  used.
\<close>

record search_query =
  q_category :: "string option"
  q_user_id :: "uuid option"
  q_project_id :: "uuid option"
  q_from_date :: "timestamp option"
  q_to_date :: "timestamp option"
  q_visibility :: "string option"
  q_limit :: "string option"
  q_offset :: "string option"

text \<open>
  One entry of \<open>whereConditions\<close> together with the parameter bound to it. The handlers
  push five shapes of condition, all on unqualified column names.
\<close>

datatype cond =
    UserIdEq "uuid option"
  | TeamIdEq "uuid option"
  | TaskCategoryEq string
  | CreatedAtGe timestamp
  | CreatedAtLe timestamp

fun column_of :: "cond \<Rightarrow> string" where
  "column_of (UserIdEq v) = ''user_id''"
| "column_of (TeamIdEq v) = ''team_id''"
| "column_of (TaskCategoryEq c) = ''task_category''"
| "column_of (CreatedAtGe t) = ''created_at''"
| "column_of (CreatedAtLe t) = ''created_at''"

text \<open>
  A condition on a row of \<open>evidence_repository_v2\<close>. A comparison with NULL on either
  side is not true, so the row is not selected.
\<close>

fun cond_holds :: "cond \<Rightarrow> evidence \<Rightarrow> bool" where
  "cond_holds (UserIdEq v) e = (v \<noteq> None \<and> e_user_id e = v)"
| "cond_holds (TeamIdEq v) e = (v \<noteq> None \<and> e_team_id e = v)"
| "cond_holds (TaskCategoryEq c) e = (e_task_category e = Some c)"
| "cond_holds (CreatedAtGe t) e = (case e_created_at e of None \<Rightarrow> False | Some c \<Rightarrow> t \<le> c)"
| "cond_holds (CreatedAtLe t) e = (case e_created_at e of None \<Rightarrow> False | Some c \<Rightarrow> c \<le> t)"

text \<open>The visibility branch of the handler: \<open>visibility\<close> defaults to \<open>'team'\<close> when the
  parameter is missing; the \<open>if\<close> has a branch for \<open>'private'\<close>, one for \<open>'team'\<close>, and
  no \<open>else\<close>.\<close>

definition visibility_conditions :: "req_user \<Rightarrow> search_query \<Rightarrow> cond list" where
  "visibility_conditions ctx q =
     (let visibility = (case q_visibility q of None \<Rightarrow> ''team'' | Some v \<Rightarrow> v)
      in if visibility = ''private'' then [UserIdEq (Some (ru_id ctx))]
         else if visibility = ''team'' then [TeamIdEq (ru_team_id ctx)]
         else [])"

text \<open>The conditions for \<open>category\<close>, \<open>user_id\<close>, \<open>from_date\<close> and \<open>to_date\<close>, in the
  handler's order.\<close>

definition filter_conditions :: "search_query \<Rightarrow> cond list" where
  "filter_conditions q =
     (if truthy_text (q_category q) then [TaskCategoryEq (the (q_category q))] else [])
     @ (case q_user_id q of None \<Rightarrow> [] | Some u \<Rightarrow> [UserIdEq (Some u)])
     @ (case q_from_date q of None \<Rightarrow> [] | Some t \<Rightarrow> [CreatedAtGe t])
     @ (case q_to_date q of None \<Rightarrow> [] | Some t \<Rightarrow> [CreatedAtLe t])"

definition evidence_where :: "req_user \<Rightarrow> search_query \<Rightarrow> cond list" where
  "evidence_where ctx q = visibility_conditions ctx q @ filter_conditions q"

text \<open>The rows a WHERE clause selects: the conditions are joined by AND, and an empty
  list gives no WHERE clause at all.\<close>

definition select_where :: "cond list \<Rightarrow> evidence list \<Rightarrow> evidence list" where
  "select_where conds rows = filter (\<lambda>e. list_all (\<lambda>c. cond_holds c e) conds) rows"

text \<open>
  The first query of the handler selects from \<open>evidence_repository_v2 e LEFT JOIN users u\<close>
  with the WHERE clause unqualified. Both tables declare \<open>team_id\<close> and \<open>created_at\<close>, so
  the store refuses a clause that names either (ambiguous column reference) and the
  handler answers 500. \<open>users_columns\<close> are the columns of \<open>users\<close> in the migration.
\<close>

definition users_columns :: "string list" where
  "users_columns = [''id'', ''username'', ''email'', ''password_hash'', ''full_name'',
     ''team_id'', ''role'', ''created_at'', ''last_login'']"

definition ambiguous :: "cond \<Rightarrow> bool" where
  "ambiguous c = (column_of c \<in> set users_columns)"

text \<open>\<open>ORDER BY e.created_at DESC\<close>: NULLs come first, and rows with equal times keep
  the order of the table (the store promises no order among them).\<close>

definition order_created_desc :: "evidence list \<Rightarrow> evidence list" where
  "order_created_desc rows =
     filter (\<lambda>e. e_created_at e = None) rows
     @ sort_key (\<lambda>e. - the (e_created_at e)) (filter (\<lambda>e. e_created_at e \<noteq> None) rows)"

text \<open>A row of the result: \<open>e.*\<close> with \<open>username\<close> and \<open>full_name\<close> of the user the
  join finds (\<open>users.id\<close> is the primary key, so at most one).\<close>

record evidence_view =
  ev_row :: evidence
  ev_username :: "string option"
  ev_full_name :: "string option"

definition join_user :: "user list \<Rightarrow> evidence \<Rightarrow> evidence_view" where
  "join_user us e =
     (case find (\<lambda>u. e_user_id e = Some (u_id u)) us of
        None \<Rightarrow> \<lparr>ev_row = e, ev_username = None, ev_full_name = None\<rparr>
      | Some u \<Rightarrow> \<lparr>ev_row = e, ev_username = Some (u_username u), ev_full_name = u_full_name u\<rparr>)"

record page =
  p_evidence :: "evidence_view list"
  p_count :: nat
  p_limit :: int
  p_offset :: int

text \<open>\<open>limit = 100\<close> and \<open>offset = 0\<close> are the defaults of the destructuring; both go
  through \<open>parseInt\<close>.\<close>

definition parse_limit :: "search_query \<Rightarrow> int option" where
  "parse_limit q = (case q_limit q of None \<Rightarrow> parseInt ''100'' | Some s \<Rightarrow> parseInt s)"

definition parse_offset :: "search_query \<Rightarrow> int option" where
  "parse_offset q = (case q_offset q of None \<Rightarrow> parseInt ''0'' | Some s \<Rightarrow> parseInt s)"

text \<open>LIMIT and OFFSET are of type \<open>bigint\<close>.\<close>

definition bigint_max :: int where
  "bigint_max = 9223372036854775807"

text \<open>
  The handler. The store refuses the joined query when the clause is ambiguous and when
  LIMIT or OFFSET is NaN, negative or beyond \<open>bigint\<close>; every failure is caught and
  answered with 500. \<open>count\<close> comes from the second query, over the same clause without
  the join.
\<close>

definition search :: "req_user \<Rightarrow> search_query \<Rightarrow> store \<Rightarrow> error + page" where
  "search ctx q st =
     (let conds = evidence_where ctx q in
      case (parse_limit q, parse_offset q) of
        (Some lmt, Some ofs) \<Rightarrow>
          if list_ex ambiguous conds \<or> lmt < 0 \<or> ofs < 0
             \<or> bigint_max < lmt \<or> bigint_max < ofs
          then Inl Http500
          else Inr \<lparr>p_evidence =
                      map (join_user (st_users st))
                        (take (nat lmt) (drop (nat ofs)
                          (order_created_desc (select_where conds (st_evidence st))))),
                    p_count = length (select_where conds (st_evidence st)),
                    p_limit = lmt,
                    p_offset = ofs\<rparr>
      | _ \<Rightarrow> Inl Http500)"

section \<open>Evidence submission and lookup\<close>

text \<open>
  The JSON body of a submission. A field is missing (\<open>None\<close>) or holds a value of the
  kind its column takes: a string for a text column, a UUID for \<open>conversation_id\<close>, any
  JSON value for \<open>evidence_data\<close>. \<open>user_id\<close>, \<open>team_id\<close>, \<open>task_id\<close> and \<open>project_id\<close>
  are what a caller may declare about itself; the authenticated handler does not read
  them.
\<close>

record evidence_body =
  b_task_id :: "string option"
  b_task_category :: "string option"
  b_evidence_type :: "string option"
  b_evidence_data :: "json option"
  b_prompt_text :: "string option"
  b_completion_text :: "string option"
  b_conversation_id :: "uuid option"
  b_knowledge_pattern_id :: "string option"
  b_coding_standard_id :: "string option"
  b_visibility :: "string option"
  b_user_id :: "string option"
  b_team_id :: "string option"
  b_project_id :: "string option"

text \<open>
  \<open>POST /api/evidence\<close> behind \<open>authMiddleware\<close>. \<open>new_id\<close> and \<open>now\<close> are the values
  the column defaults \<open>gen_random_uuid()\<close> and \<open>NOW()\<close> produce, \<open>jsonb_in\<close> is the
  store's reader of JSON text. The handler reads nine fields of the body and binds them,
  with the caller's id and team, to the INSERT; every other column is left to its
  default, NULL. The INSERT fails (500) when the store refuses a parameter or the
  primary key is taken. The handler returns the inserted row; the second component is
  the store afterwards.
\<close>

definition submit_evidence ::
  "(string \<Rightarrow> json option) \<Rightarrow> req_user \<Rightarrow> evidence_body \<Rightarrow> uuid \<Rightarrow> timestamp \<Rightarrow> store
     \<Rightarrow> (error + evidence) \<times> store" where
  "submit_evidence jsonb_in ctx b new_id now st =
     (if \<not> truthy_text (b_task_category b) \<or> \<not> truthy_text (b_evidence_type b)
         \<or> \<not> truthy_json (b_evidence_data b)
      then (Inl Http400, st)
      else
        case (varchar_null 50 (b_task_category b), varchar_null 100 (b_evidence_type b),
              jsonb_column jsonb_in (b_evidence_data b),
              text_null (b_prompt_text b), text_null (b_completion_text b),
              varchar_null 255 (b_knowledge_pattern_id b),
              varchar_null 255 (b_coding_standard_id b),
              varchar 20 (case b_visibility b of None \<Rightarrow> ''team'' | Some v \<Rightarrow> v)) of
          (Some category, Some etype, Some payload, Some prompt, Some completion,
           Some pattern, Some standard, Some visibility) \<Rightarrow>
            if new_id \<in> set (map e_id (st_evidence st)) then (Inl Http500, st)
            else
              let row = \<lparr>e_id = new_id, e_task_id = None,
                         e_user_id = Some (ru_id ctx), e_team_id = ru_team_id ctx,
                         e_task_category = category, e_evidence_type = etype,
                         e_evidence_data = payload,
                         e_prompt_text = prompt,
                         e_completion_text = completion,
                         e_conversation_id = b_conversation_id b,
                         e_knowledge_pattern_id = pattern,
                         e_coding_standard_id = standard,
                         e_requirement_id = None,
                         e_created_at = Some now,
                         e_visibility = Some visibility,
                         e_project_id = None, e_environment_id = None,
                         e_repo_branch = None, e_commit_sha = None, e_git_remote = None\<rparr>
              in (Inr row, st\<lparr>st_evidence := st_evidence st @ [row]\<rparr>)
        | _ \<Rightarrow> (Inl Http500, st))"

text \<open>
  \<open>POST /api/evidence\<close> of the first backend, without authentication: the row goes to
  \<open>evidence_repository\<close> with the \<open>user_id\<close> and \<open>project_id\<close> of the body. The
  \<open>evidence_data\<close> column is NOT NULL.
\<close>

definition legacy_submit_evidence ::
  "(string \<Rightarrow> json option) \<Rightarrow> evidence_body \<Rightarrow> nat \<Rightarrow> timestamp \<Rightarrow> store
     \<Rightarrow> (error + legacy_evidence) \<times> store" where
  "legacy_submit_evidence jsonb_in b new_id now st =
     (if \<not> truthy_text (b_task_category b) \<or> \<not> truthy_text (b_evidence_type b)
         \<or> \<not> truthy_json (b_evidence_data b)
      then (Inl Http400, st)
      else
        case (varchar_null 255 (b_task_id b), varchar 100 (the (b_task_category b)),
              varchar 100 (the (b_evidence_type b)),
              jsonb_column jsonb_in (b_evidence_data b),
              varchar_null 255 (b_user_id b), varchar_null 255 (b_project_id b)) of
          (Some task, Some category, Some etype, Some (Some payload), Some uid, Some pid) \<Rightarrow>
            if new_id \<in> set (map l_id (st_legacy st)) then (Inl Http500, st)
            else
              let row = \<lparr>l_id = new_id, l_task_id = task, l_task_category = category,
                         l_evidence_type = etype, l_evidence_data = payload,
                         l_user_id = uid, l_project_id = pid,
                         l_created_at = Some now, l_metadata = None\<rparr>
              in (Inr row, st\<lparr>st_legacy := st_legacy st @ [row]\<rparr>)
        | _ \<Rightarrow> (Inl Http500, st))"


section \<open>Compliance metrics (\<open>GET /api/metrics/compliance\<close>)\<close>

text \<open>\<open>team_id\<close> of the query string defaults to the caller's team when it is missing.\<close>

record metrics_query =
  m_from_date :: "timestamp option"
  m_to_date :: "timestamp option"
  m_team_id :: "uuid option"

definition metrics_where :: "req_user \<Rightarrow> metrics_query \<Rightarrow> cond list" where
  "metrics_where ctx q =
     [TeamIdEq (case m_team_id q of None \<Rightarrow> ru_team_id ctx | Some t \<Rightarrow> Some t)]
     @ (case m_from_date q of None \<Rightarrow> [] | Some t \<Rightarrow> [CreatedAtGe t])
     @ (case m_to_date q of None \<Rightarrow> [] | Some t \<Rightarrow> [CreatedAtLe t])"

record metric =
  mt_task_category :: "string option"
  mt_total_verifications :: nat
  mt_unique_users :: nat
  mt_pass_rate :: rat

text \<open>One row per \<open>task_category\<close> of the selected rows: \<open>COUNT(*)\<close>, \<open>COUNT(DISTINCT
  user_id)\<close>, which skips NULL, and the literal \<open>0.87\<close>.\<close>

definition metric_of :: "evidence list \<Rightarrow> string option \<Rightarrow> metric" where
  "metric_of rows c =
     (let grp = filter (\<lambda>e. e_task_category e = c) rows
      in \<lparr>mt_task_category = c,
          mt_total_verifications = length grp,
          mt_unique_users = length (remdups (filter (\<lambda>u. u \<noteq> None) (map e_user_id grp))),
          mt_pass_rate = 87 / 100\<rparr>)"

text \<open>The query runs on \<open>evidence_repository_v2\<close> alone, so its unqualified columns
  are not ambiguous. \<open>ORDER BY total_verifications DESC\<close>: the store promises no order
  among groups of equal size, and the list below has them in the order in which the
  categories last occur in the table.\<close>

definition compliance_metrics :: "req_user \<Rightarrow> metrics_query \<Rightarrow> store \<Rightarrow> metric list" where
  "compliance_metrics ctx q st =
     (let rows = select_where (metrics_where ctx q) (st_evidence st)
      in sort_key (\<lambda>m. - int (mt_total_verifications m))
           (map (metric_of rows) (remdups (map e_task_category rows))))"

section \<open>Hook update (\<open>PUT /api/hooks/:id\<close>)\<close>

record hook_body =
  hb_script_content :: "string option"
  hb_enabled :: "bool option"



text \<open>The columns the UPDATE does not assign.\<close>

definition hook_frame ::
  "hook \<Rightarrow> uuid \<times> string \<times> string option \<times> string \<times> uuid option \<times> int option \<times> uuid option
     \<times> timestamp option \<times> uuid option \<times> string option" where
  "hook_frame h = (h_id h, h_name h, h_category h, h_hook_type h, h_team_id h, h_version h,
     h_created_by h, h_created_at h, h_project_id h, h_scope h)"

section \<open>Knowledge links\<close>

text \<open>
  Modelled from the spec: the \<open>link\<close> operation of the Knowledge Bridge. The repository
  declares the table \<open>project_knowledge_links\<close> with \<open>UNIQUE(project_id, knowledge_type,
  knowledge_id)\<close> and has no code that writes it. Following the spec, a knowledge type or
  a scope outside the listed values is a validation error; \<open>link\<close> inserts a row, and a
  violation of the unique triple is turned into the return of the row that is already
  there. The width of \<open>knowledge_id\<close> and the primary key are those of the table.
\<close>

definition knowledge_types :: "string list" where
  "knowledge_types = [''standard'', ''requirement'', ''pattern'', ''architecture'']"

definition link_scopes :: "string list" where
  "link_scopes = [''global'', ''project'', ''environment'']"

definition link ::
  "uuid \<Rightarrow> string \<Rightarrow> string \<Rightarrow> string \<Rightarrow> uuid \<Rightarrow> uuid \<Rightarrow> timestamp \<Rightarrow> store
     \<Rightarrow> (error + knowledge_link) \<times> store" where
  "link project_id knowledge_type knowledge_id scope created_by new_id now st =
     (if \<not> (knowledge_type \<in> set knowledge_types \<and> scope \<in> set link_scopes)
      then (Inl Http400, st)
      else
        case varchar 255 knowledge_id of
          None \<Rightarrow> (Inl Http500, st)
        | Some kid \<Rightarrow>
            (case find (\<lambda>r. k_project_id r = Some project_id
                             \<and> k_knowledge_type r = knowledge_type
                             \<and> k_knowledge_id r = kid) (st_links st) of
               Some r \<Rightarrow> (Inr r, st)
             | None \<Rightarrow>
                 if new_id \<in> set (map k_id (st_links st)) then (Inl Http500, st)
                 else
                   let row = \<lparr>k_id = new_id, k_project_id = Some project_id,
                              k_knowledge_type = knowledge_type, k_knowledge_id = kid,
                              k_scope = Some scope, k_created_at = Some now,
                              k_created_by = Some created_by\<rparr>
                   in (Inr row, st\<lparr>st_links := st_links st @ [row]\<rparr>)))"

section \<open>Example data\<close>

text \<open>Two teams of two organizations, one user in each, one evidence row of each user.
  The rows are what two authenticated submissions leave behind.\<close>

definition example_row :: "uuid \<Rightarrow> uuid \<Rightarrow> uuid option \<Rightarrow> string \<Rightarrow> timestamp \<Rightarrow> evidence" where
  "example_row eid uid tid category t =
     \<lparr>e_id = eid, e_task_id = None, e_user_id = Some uid, e_team_id = tid,
      e_task_category = Some category, e_evidence_type = Some ''test-run'',
      e_evidence_data = Some (JObj (fmap_of_list [(''passed'', JBool True)])),
      e_prompt_text = None, e_completion_text = None, e_conversation_id = None,
      e_knowledge_pattern_id = None, e_coding_standard_id = None, e_requirement_id = None,
      e_created_at = Some t, e_visibility = Some ''team'',
      e_project_id = None, e_environment_id = None,
      e_repo_branch = None, e_commit_sha = None, e_git_remote = None\<rparr>"

definition row_alice :: evidence where
  "row_alice = example_row 100 1 (Some 10) ''web'' 1000"

definition row_bob :: evidence where
  "row_bob = example_row 101 2 (Some 20) ''api'' 2000"

definition example_teams :: "team list" where
  "example_teams =
     [\<lparr>t_id = 10, t_name = ''Platform'', t_organization = Some ''Acme''\<rparr>,
      \<lparr>t_id = 20, t_name = ''Payments'', t_organization = Some ''Globex''\<rparr>]"

definition example_users :: "user list" where
  "example_users =
     [\<lparr>u_id = 1, u_username = ''alice'', u_full_name = Some ''Alice'',
       u_team_id = Some 10, u_role = Some ''developer''\<rparr>,
      \<lparr>u_id = 2, u_username = ''bob'', u_full_name = None,
       u_team_id = Some 20, u_role = Some ''lead''\<rparr>]"

definition example_store :: store where
  "example_store =
     \<lparr>st_teams = example_teams, st_users = example_users,
      st_evidence = [row_alice, row_bob],
      st_legacy = [], st_hooks = [], st_links = []\<rparr>"

definition ctx_alice :: req_user where
  "ctx_alice = \<lparr>ru_id = 1, ru_team_id = Some 10, ru_role = Some ''developer'',
                ru_organization = Some ''Acme''\<rparr>"

definition no_options :: search_query where
  "no_options = \<lparr>q_category = None, q_user_id = None, q_project_id = None,
                 q_from_date = None, q_to_date = None, q_visibility = None,
                 q_limit = None, q_offset = None\<rparr>"

text \<open>The evidence rows of a response, none for a failure.\<close>

definition returned_rows :: "error + page \<Rightarrow> evidence list" where
  "returned_rows r = (case r of Inl _ \<Rightarrow> [] | Inr p \<Rightarrow> map ev_row (p_evidence p))"

text \<open>A second row of Alice, newer than the first and of another category.\<close>

definition row_alice_api :: evidence where
  "row_alice_api = example_row 102 1 (Some 10) ''api'' 3000"

definition alice_store :: store where
  "alice_store = example_store\<lparr>st_evidence := [row_alice, row_alice_api]\<rparr>"

text \<open>A private search that asks for one row.\<close>

definition private_first :: search_query where
  "private_first = no_options\<lparr>q_visibility := Some ''private'', q_limit := Some ''1''\<rparr>"

definition page_alice_web :: page where
  "page_alice_web =
     \<lparr>p_evidence = [\<lparr>ev_row = row_alice, ev_username = Some ''alice'',
                      ev_full_name = Some ''Alice''\<rparr>],
      p_count = 1, p_limit = 1, p_offset = 0\<rparr>"

definition page_alice_private :: page where
  "page_alice_private =
     \<lparr>p_evidence = [\<lparr>ev_row = row_alice, ev_username = Some ''alice'',
                      ev_full_name = Some ''Alice''\<rparr>],
      p_count = 1, p_limit = 100, p_offset = 0\<rparr>"

definition no_metrics_options :: metrics_query where
  "no_metrics_options = \<lparr>m_from_date = None, m_to_date = None, m_team_id = None\<rparr>"

text \<open>A user whose team was deleted (\<open>ON DELETE SET NULL\<close> on \<open>users\<close> and on the
  evidence table), a row of that user, and the store after the deletion.\<close>

definition ctx_no_team :: req_user where
  "ctx_no_team = \<lparr>ru_id = 1, ru_team_id = None, ru_role = Some ''developer'',
                  ru_organization = None\<rparr>"

definition row_no_team :: evidence where
  "row_no_team = example_row 103 1 None ''web'' 4000"


text \<open>A table of 101 rows of Alice.\<close>

definition many_rows :: "evidence list" where
  "many_rows = map (\<lambda>i. example_row (200 + i) 1 (Some 10) ''web'' (int i)) [0..<101]"

definition many_store :: store where
  "many_store = example_store\<lparr>st_evidence := many_rows\<rparr>"

text \<open>The query without the caller's filters, the visibility and the paging kept.\<close>

definition clear_filters :: "search_query \<Rightarrow> search_query" where
  "clear_filters q = q\<lparr>q_category := None, q_user_id := None, q_project_id := None,
                        q_from_date := None, q_to_date := None\<rparr>"

definition clear_dates :: "metrics_query \<Rightarrow> metrics_query" where
  "clear_dates q = q\<lparr>m_from_date := None, m_to_date := None\<rparr>"

text \<open>The rows the WHERE clause of a search selects for a requested visibility: the
  rows the second query counts, and from which ORDER BY, LIMIT and OFFSET cut the page.\<close>

definition selected_rows ::
  "req_user \<Rightarrow> search_query \<Rightarrow> string \<Rightarrow> evidence list \<Rightarrow> evidence list" where
  "selected_rows ctx q v rows =
     select_where (evidence_where ctx (q\<lparr>q_visibility := Some v\<rparr>)) rows"

text \<open>Every row of the caller carries the caller's team, as the rows the authenticated
  submission stamps do while the caller stays in the team.\<close>

definition rows_carry_caller_team :: "req_user \<Rightarrow> evidence list \<Rightarrow> bool" where
  "rows_carry_caller_team ctx rows =
     list_all (\<lambda>e. e_user_id e = Some (ru_id ctx) \<longrightarrow> e_team_id e = ru_team_id ctx) rows"

text \<open>In the examples no payload is a string, so the store's reader of JSON text plays
  no part in them; they are stated for the reader that takes no text.\<close>

definition no_json_text :: "string \<Rightarrow> json option" where
  "no_json_text s = None"

text \<open>A submission whose body also declares a task, a user, a team and a project.\<close>

definition body_web :: evidence_body where
  "body_web =
     \<lparr>b_task_id = Some ''task-7'', b_task_category = Some ''web'',
      b_evidence_type = Some ''test-run'',
      b_evidence_data = Some (JObj (fmap_of_list [(''passed'', JBool True)])),
      b_prompt_text = None, b_completion_text = None, b_conversation_id = None,
      b_knowledge_pattern_id = None, b_coding_standard_id = None, b_visibility = None,
      b_user_id = Some ''mallory'', b_team_id = Some ''team-99'',
      b_project_id = Some ''flowmaster''\<rparr>"

definition fresh_store :: store where
  "fresh_store = example_store\<lparr>st_evidence := []\<rparr>"

definition legacy_row_web :: legacy_evidence where
  "legacy_row_web =
     \<lparr>l_id = 1, l_task_id = Some ''task-7'', l_task_category = ''web'',
      l_evidence_type = ''test-run'', l_evidence_data = JObj (fmap_of_list [(''passed'', JBool True)]),
      l_user_id = Some ''mallory'', l_project_id = Some ''flowmaster'',
      l_created_at = Some 1000, l_metadata = None\<rparr>"







text \<open>A JSON value with no NUL in a string or key, and whose numbers are integers that
  JavaScript holds exactly.\<close>

primrec plain_json :: "json \<Rightarrow> bool" where
  "plain_json JNull = True"
| "plain_json (JBool b) = True"
| "plain_json (JNum n) = (- (2 ^ 53) \<le> n \<and> n \<le> 2 ^ 53)"
| "plain_json (JStr s) = (CHR 0x00 \<notin> set s)"
| "plain_json (JArr xs) = list_all id (map plain_json xs)"
| "plain_json (JObj m) = fmpred (\<lambda>k ok. CHR 0x00 \<notin> set k \<and> ok) (fmmap plain_json m)"

text \<open>A payload the \<open>jsonb\<close> column holds as it was sent: a plain object, a plain number
  or a boolean.\<close>

definition payload_kept :: "json option \<Rightarrow> bool" where
  "payload_kept v =
     (case v of
        Some (JObj m) \<Rightarrow> plain_json (JObj m)
      | Some (JNum n) \<Rightarrow> plain_json (JNum n)
      | Some (JBool b) \<Rightarrow> True
      | _ \<Rightarrow> False)"

text \<open>Two hooks, one of each team, and a body that repairs the script of the first.\<close>

definition example_hook :: hook where
  "example_hook =
     \<lparr>h_id = 500, h_name = ''pre-completion-check'', h_category = Some ''web'',
      h_hook_type = ''pre-completion'', h_script_content = ''exit 1'',
      h_enabled = Some True, h_team_id = Some 10, h_version = Some 3,
      h_created_by = Some 1, h_created_at = Some 100, h_updated_at = Some 100,
      h_project_id = None, h_scope = Some ''team''\<rparr>"

definition other_hook :: hook where
  "other_hook = example_hook\<lparr>h_id := 501, h_team_id := Some 20, h_version := Some 1\<rparr>"

definition hook_store :: store where
  "hook_store = example_store\<lparr>st_hooks := [example_hook, other_hook]\<rparr>"


text \<open>What the UPDATE assigns to an addressed row.\<close>

definition set_hook :: "hook_body \<Rightarrow> timestamp \<Rightarrow> hook \<Rightarrow> hook" where
  "set_hook b now h = h\<lparr>h_script_content := the (hb_script_content b),
                          h_enabled := hb_enabled b, h_updated_at := Some now\<rparr>"

text \<open>A link of project 30 to the standard \<open>std-42\<close>.\<close>

definition example_link :: knowledge_link where
  "example_link =
     \<lparr>k_id = 700, k_project_id = Some 30, k_knowledge_type = ''standard'',
      k_knowledge_id = ''std-42'', k_scope = Some ''project'', k_created_at = Some 5000,
      k_created_by = Some 1\<rparr>"

section \<open>Auxiliary facts\<close>

lemmas example_defs = example_row_def row_alice_def row_bob_def example_teams_def
  example_users_def example_store_def ctx_alice_def no_options_def

lemmas search_defs = search_def evidence_where_def visibility_conditions_def
  filter_conditions_def select_where_def order_created_desc_def join_user_def
  parse_limit_def parse_offset_def ambiguous_def users_columns_def truthy_text_def
  returned_rows_def bigint_max_def

lemmas parse_defs = parseInt_def is_space_def digit_of_def digits_value_def to_double_def

text \<open>The callers of the examples are the users the stores hold.\<close>

lemma ctx_alice_authenticated:
  "authMiddleware example_store 1 = Inr ctx_alice"
  "authMiddleware alice_store 1 = Inr ctx_alice"
  "authMiddleware many_store 1 = Inr ctx_alice"
  "authMiddleware fresh_store 1 = Inr ctx_alice"
  "authMiddleware hook_store 1 = Inr ctx_alice"
  by (simp_all add: authMiddleware_def organization_of_def example_defs alice_store_def
      many_store_def fresh_store_def hook_store_def)


lemma parseInt_100 [simp]: "parseInt ''100'' = Some 100"
  by (simp add: parse_defs)

lemma parseInt_0 [simp]: "parseInt ''0'' = Some 0"
  by (simp add: parse_defs)

lemma parseInt_1 [simp]: "parseInt ''1'' = Some 1"
  by (simp add: parse_defs)

lemma visibility_conditions_other:
  "v \<noteq> ''private'' \<Longrightarrow> v \<noteq> ''team'' \<Longrightarrow>
   visibility_conditions ctx (q\<lparr>q_visibility := Some v\<rparr>) = []"
  by (simp add: visibility_conditions_def)

lemma filter_conditions_visibility [simp]:
  "filter_conditions (q\<lparr>q_visibility := v\<rparr>) = filter_conditions q"
  by (simp add: filter_conditions_def)

lemma search_cong:
  "evidence_where ctx q = evidence_where ctx q' \<Longrightarrow> q_limit q = q_limit q' \<Longrightarrow>
   q_offset q = q_offset q' \<Longrightarrow> search ctx q st = search ctx q' st"
  by (simp add: search_def parse_limit_def parse_offset_def)

lemma parseInt_101 [simp]: "parseInt ''101'' = Some 101"
  by (simp add: parse_defs)

lemma ev_row_join_user [simp]: "ev_row (join_user us e) = e"
  by (simp add: join_user_def split: option.splits)

lemma set_order_created_desc [simp]: "set (order_created_desc rows) = set rows"
  by (auto simp: order_created_desc_def)

lemma length_order_created_desc [simp]: "length (order_created_desc rows) = length rows"
proof -
  have "length (filter (\<lambda>e. e_created_at e = None) rows)
          + length (filter (\<lambda>e. e_created_at e \<noteq> None) rows) = length rows"
    using sum_length_filter_compl [of "\<lambda>e. e_created_at e = None" rows] by simp
  then show ?thesis by (simp add: order_created_desc_def)
qed

lemma select_where_mono:
  "set cs \<subseteq> set ds \<Longrightarrow> set (select_where ds rows) \<subseteq> set (select_where cs rows)"
  by (auto simp: select_where_def list_all_iff)

lemma length_filter_mono:
  "(\<And>x. x \<in> set xs \<Longrightarrow> P x \<Longrightarrow> Q x) \<Longrightarrow> length (filter P xs) \<le> length (filter Q xs)"
  by (induction xs) auto

lemma length_select_where_mono:
  "set cs \<subseteq> set ds \<Longrightarrow> length (select_where ds rows) \<le> length (select_where cs rows)"
  unfolding select_where_def by (rule length_filter_mono) (auto simp: list_all_iff)

lemma evidence_where_clear_filters:
  "evidence_where ctx (clear_filters q) = visibility_conditions ctx q"
  by (simp add: evidence_where_def clear_filters_def filter_conditions_def
      visibility_conditions_def truthy_text_def)

lemma visibility_subset_where: "set (visibility_conditions ctx q) \<subseteq> set (evidence_where ctx q)"
  by (simp add: evidence_where_def)

lemma clear_filters_limit [simp]:
  "parse_limit (clear_filters q) = parse_limit q" "parse_offset (clear_filters q) = parse_offset q"
  by (simp_all add: clear_filters_def parse_limit_def parse_offset_def)

lemma returned_page_subset:
  assumes "search ctx q st = Inr p"
  shows "set (map ev_row (p_evidence p)) \<subseteq> set (select_where (evidence_where ctx q) (st_evidence st))"
    and "p_count p = length (select_where (evidence_where ctx q) (st_evidence st))"
    and "\<not> list_ex ambiguous (evidence_where ctx q)"
    and "\<exists>l f. parse_limit q = Some l \<and> parse_offset q = Some f \<and> 0 \<le> l \<and> 0 \<le> f
           \<and> l \<le> bigint_max \<and> f \<le> bigint_max \<and> p_limit p = l \<and> p_offset p = f"
proof -
  from assms obtain l f where lf: "parse_limit q = Some l" "parse_offset q = Some f"
    by (auto simp: search_def Let_def split: option.splits if_splits)
  from assms lf have ok: "\<not> list_ex ambiguous (evidence_where ctx q)" "0 \<le> l" "0 \<le> f"
    "l \<le> bigint_max" "f \<le> bigint_max"
    by (auto simp: search_def Let_def split: if_splits)
  from assms lf ok have p: "p = \<lparr>p_evidence =
                      map (join_user (st_users st))
                        (take (nat l) (drop (nat f)
                          (order_created_desc (select_where (evidence_where ctx q) (st_evidence st))))),
                    p_count = length (select_where (evidence_where ctx q) (st_evidence st)),
                    p_limit = l,
                    p_offset = f\<rparr>"
    by (auto simp: search_def Let_def split: if_splits)
  have jr: "\<And>us e. ev_row (join_user us e) = e"
    by (simp add: join_user_def split: option.splits)
  have "map ev_row (p_evidence p) = take (nat l) (drop (nat f)
                          (order_created_desc (select_where (evidence_where ctx q) (st_evidence st))))"
    by (simp add: p jr comp_def)
  then have "set (map ev_row (p_evidence p)) \<subseteq> set (order_created_desc (select_where (evidence_where ctx q) (st_evidence st)))"
    by (metis set_take_subset set_drop_subset subset_trans)
  then show "set (map ev_row (p_evidence p)) \<subseteq> set (select_where (evidence_where ctx q) (st_evidence st))"
    by simp
  show "p_count p = length (select_where (evidence_where ctx q) (st_evidence st))" by (simp add: p)
  show "\<not> list_ex ambiguous (evidence_where ctx q)" by (rule ok(1))
  show "\<exists>l f. parse_limit q = Some l \<and> parse_offset q = Some f \<and> 0 \<le> l \<and> 0 \<le> f
           \<and> l \<le> bigint_max \<and> f \<le> bigint_max \<and> p_limit p = l \<and> p_offset p = f"
    using lf ok by (simp add: p)
qed

lemma search_succeeds:
  assumes "parse_limit q = Some l" "parse_offset q = Some f" "0 \<le> l" "0 \<le> f"
    "l \<le> bigint_max" "f \<le> bigint_max"
    "\<not> list_ex ambiguous (evidence_where ctx q)"
  shows "\<exists>p. search ctx q st = Inr p"
  using assms by (simp add: search_def Let_def)

lemma select_where_all: "(\<And>e. e \<in> set rows \<Longrightarrow> list_all (\<lambda>c. cond_holds c e) cs) \<Longrightarrow> select_where cs rows = rows"
  by (simp add: select_where_def)

lemma set_compliance_metrics:
  "set (compliance_metrics ctx mq st)
     = metric_of (select_where (metrics_where ctx mq) (st_evidence st))
         ` e_task_category ` set (select_where (metrics_where ctx mq) (st_evidence st))"
  by (simp add: compliance_metrics_def Let_def)

lemma metric_of_mono:
  assumes "\<And>e. e \<in> set rows \<Longrightarrow> P e \<Longrightarrow> Q e"
  shows "mt_total_verifications (metric_of (filter P rows) c)
           \<le> mt_total_verifications (metric_of (filter Q rows) c)"
    and "mt_unique_users (metric_of (filter P rows) c)
           \<le> mt_unique_users (metric_of (filter Q rows) c)"
proof -
  show "mt_total_verifications (metric_of (filter P rows) c)
           \<le> mt_total_verifications (metric_of (filter Q rows) c)"
    using assms by (auto simp: metric_of_def Let_def intro!: length_filter_mono)
  let ?u = "\<lambda>R. filter (\<lambda>u. u \<noteq> None)
                   (map e_user_id (filter (\<lambda>e. e_task_category e = c) (filter R rows)))"
  have "set (?u P) \<subseteq> set (?u Q)" using assms by auto
  then have "card (set (?u P)) \<le> card (set (?u Q))"
    by (intro card_mono) auto
  then show "mt_unique_users (metric_of (filter P rows) c)
           \<le> mt_unique_users (metric_of (filter Q rows) c)"
    by (simp add: metric_of_def Let_def length_remdups_card_conv)
qed

lemma mt_task_category_metric_of [simp]: "mt_task_category (metric_of rows c) = c"
  by (simp add: metric_of_def Let_def)

lemma compliance_metrics_narrow:
  assumes "m \<in> set (compliance_metrics ctx mq st)"
  shows "\<exists>m0 \<in> set (compliance_metrics ctx (clear_dates mq) st).
           mt_task_category m0 = mt_task_category m
           \<and> mt_total_verifications m \<le> mt_total_verifications m0
           \<and> mt_unique_users m \<le> mt_unique_users m0"
proof -
  let ?P = "\<lambda>e. list_all (\<lambda>c. cond_holds c e) (metrics_where ctx mq)"
  let ?Q = "\<lambda>e. list_all (\<lambda>c. cond_holds c e) (metrics_where ctx (clear_dates mq))"
  let ?ev = "st_evidence st"
  have PQ: "\<And>e. ?P e \<Longrightarrow> ?Q e"
    by (auto simp: metrics_where_def clear_dates_def list_all_iff)
  from assms obtain e where e: "e \<in> set (filter ?P ?ev)"
    and m: "m = metric_of (filter ?P ?ev) (e_task_category e)"
    by (auto simp: set_compliance_metrics select_where_def)
  from e PQ have e0: "e \<in> set (filter ?Q ?ev)" by auto
  let ?m0 = "metric_of (filter ?Q ?ev) (e_task_category e)"
  from e0 have "?m0 \<in> set (compliance_metrics ctx (clear_dates mq) st)"
    by (auto simp: set_compliance_metrics select_where_def)
  moreover have "mt_task_category ?m0 = mt_task_category m" by (simp add: m)
  moreover have "mt_total_verifications m \<le> mt_total_verifications ?m0"
    unfolding m by (rule metric_of_mono) (rule PQ)
  moreover have "mt_unique_users m \<le> mt_unique_users ?m0"
    unfolding m by (rule metric_of_mono) (rule PQ)
  ultimately show ?thesis by blast
qed

lemma search_page_length:
  assumes "search ctx q st = Inr p"
  shows "int (length (p_evidence p)) \<le> p_limit p"
proof -
  from assms obtain l f where lf: "parse_limit q = Some l" "parse_offset q = Some f"
    by (auto simp: search_def Let_def split: option.splits if_splits)
  from assms lf have ok: "0 \<le> l" and p: "p_limit p = l"
     and len: "length (p_evidence p) = length (take (nat l) (drop (nat f)
        (order_created_desc (select_where (evidence_where ctx q) (st_evidence st)))))"
    by (auto simp: search_def Let_def split: if_splits)
  have "length (p_evidence p) \<le> nat l" unfolding len by simp
  with ok p show ?thesis by linarith
qed





lemma nul_free_example [simp]: "nul_free (JObj (fmap_of_list [(''passed'', JBool True)]))"
  by (auto intro!: fmpred_upd simp: fmmap_fmupd)

lemma plain_json_example [simp]: "plain_json (JObj (fmap_of_list [(''passed'', JBool True)]))"
  by (auto intro!: fmpred_upd simp: fmmap_fmupd)

lemma jsonb_column_example [simp]:
  "jsonb_column jsonb_in (Some (JObj (fmap_of_list [(''passed'', JBool True)])))
     = Some (Some (JObj (fmap_of_list [(''passed'', JBool True)])))"
  using nul_free_example by (simp add: jsonb_column_def del: fmap_of_list_simps)

lemma payload_kept_example [simp]:
  "payload_kept (Some (JObj (fmap_of_list [(''passed'', JBool True)])))"
  using plain_json_example by (simp add: payload_kept_def del: plain_json.simps fmap_of_list_simps)

lemmas submit_defs = truthy_text_def varchar_null_def varchar_def text_null_def text_in_def
  Let_def




lemma hook_frame_set_hook [simp]: "hook_frame (set_hook b now h) = hook_frame h"
  by (simp add: hook_frame_def set_hook_def)

lemma find_append_new:
  "find P xs = None \<Longrightarrow> P x \<Longrightarrow> find P (xs @ [x]) = Some x"
  by (induction xs) (auto split: if_splits)

lemma link_found:
  assumes "find (\<lambda>x. k_project_id x = Some pid \<and> k_knowledge_type x = ktype
                      \<and> k_knowledge_id x = kid) (st_links st) = Some r"
    and "ktype \<in> set knowledge_types" "scope \<in> set link_scopes"
    and "varchar 255 knowledge_id = Some kid"
  shows "link pid ktype knowledge_id scope by new_id now st = (Inr r, st)"
  using assms by (simp add: link_def)

text \<open>A search whose clause names \<open>team_id\<close> or \<open>created_at\<close> is refused: the search
  for the team, which is also the search without a visibility, and every search with a
  date filter.\<close>

lemma search_refused:
  assumes "q_visibility q = None \<or> q_visibility q = Some ''team''
           \<or> q_from_date q \<noteq> None \<or> q_to_date q \<noteq> None"
  shows "search ctx q st = Inl Http500"
proof -
  have "list_ex ambiguous (evidence_where ctx q)"
    using assms
    by (auto simp: evidence_where_def visibility_conditions_def filter_conditions_def
        ambiguous_def users_columns_def)
  then show ?thesis
    by (simp add: search_def Let_def split: option.splits)
qed

section \<open>Visibility \<open>organization\<close>\<close>

text \<open>
  C1 says that a search with visibility \<open>organization\<close> returns only rows whose team is
  in the caller's organization. The handler has no branch for \<open>organization\<close>: Alice, of
  a team of Acme, is given Bob's row, whose team belongs to Globex.
\<close>

theorem organization_search_returns_other_organization:
  "returned_rows (search ctx_alice (no_options\<lparr>q_visibility := Some ''organization''\<rparr>)
      example_store) = [row_bob, row_alice]
   \<and> organization_of example_store (e_team_id row_bob) = Some ''Globex''
   \<and> ru_organization ctx_alice = Some ''Acme''"
  by (simp add: example_defs search_defs organization_of_def)

text \<open>
  C1, as the handler has it: for visibility \<open>organization\<close> no visibility condition is
  composed, the WHERE clause consists of the caller's filters alone, and the response is
  the response for visibility \<open>public\<close>.
\<close>

theorem organization_search_is_unrestricted:
  "evidence_where ctx (q\<lparr>q_visibility := Some ''organization''\<rparr>) = filter_conditions q
   \<and> search ctx (q\<lparr>q_visibility := Some ''organization''\<rparr>) st
       = search ctx (q\<lparr>q_visibility := Some ''public''\<rparr>) st"
  by (simp add: evidence_where_def visibility_conditions_other search_cong)

section \<open>Unrecognized visibility\<close>

text \<open>
  C2 says that a visibility other than the four known ones is treated as \<open>team\<close>. The
  handler composes no condition for it: with visibility \<open>everyone\<close> Alice, of team 10, is
  given the row of team 20.
\<close>

theorem unknown_visibility_returns_other_team:
  "returned_rows (search ctx_alice (no_options\<lparr>q_visibility := Some ''everyone''\<rparr>)
      example_store) = [row_bob, row_alice]
   \<and> e_team_id row_bob = Some 20 \<and> ru_team_id ctx_alice = Some 10
   \<and> evidence_where ctx_alice (no_options\<lparr>q_visibility := Some ''everyone''\<rparr>) = []"
  by (simp add: example_defs search_defs)

text \<open>
  C2, as the handler has it: a visibility that is none of the four known values adds no
  condition, so the response is the one for \<open>public\<close>; the team condition is composed
  for \<open>team\<close> and for a missing visibility.
\<close>

theorem unknown_visibility_is_unrestricted:
  assumes "v \<notin> {''private'', ''team'', ''organization'', ''public''}"
  shows "evidence_where ctx (q\<lparr>q_visibility := Some v\<rparr>) = filter_conditions q
         \<and> search ctx (q\<lparr>q_visibility := Some v\<rparr>) st
             = search ctx (q\<lparr>q_visibility := Some ''public''\<rparr>) st
         \<and> evidence_where ctx (q\<lparr>q_visibility := None\<rparr>)
             = TeamIdEq (ru_team_id ctx) # filter_conditions q
         \<and> evidence_where ctx (q\<lparr>q_visibility := Some ''team''\<rparr>)
             = TeamIdEq (ru_team_id ctx) # filter_conditions q"
proof -
  from assms have v: "v \<noteq> ''private''" "v \<noteq> ''team''" by auto
  have pub: "evidence_where ctx (q\<lparr>q_visibility := Some ''public''\<rparr>) = filter_conditions q"
    by (simp add: evidence_where_def visibility_conditions_other)
  have unk: "evidence_where ctx (q\<lparr>q_visibility := Some v\<rparr>) = filter_conditions q"
    using v by (simp add: evidence_where_def visibility_conditions_other)
  have same: "search ctx (q\<lparr>q_visibility := Some v\<rparr>) st
                = search ctx (q\<lparr>q_visibility := Some ''public''\<rparr>) st"
    by (rule search_cong) (simp_all add: pub unk)
  have dflt: "evidence_where ctx (q\<lparr>q_visibility := None\<rparr>)
                = TeamIdEq (ru_team_id ctx) # filter_conditions q"
    by (simp add: evidence_where_def visibility_conditions_def)
  have team: "evidence_where ctx (q\<lparr>q_visibility := Some ''team''\<rparr>)
                = TeamIdEq (ru_team_id ctx) # filter_conditions q"
    by (simp add: evidence_where_def visibility_conditions_def)
  from unk same dflt team show ?thesis by simp
qed

theorem unknown_visibility_is_unrestricted_witness:
  "evidence_where ctx_alice (no_options\<lparr>q_visibility := Some ''everyone''\<rparr>)
     = filter_conditions no_options
   \<and> search ctx_alice (no_options\<lparr>q_visibility := Some ''everyone''\<rparr>) example_store
       = search ctx_alice (no_options\<lparr>q_visibility := Some ''public''\<rparr>) example_store
   \<and> evidence_where ctx_alice (no_options\<lparr>q_visibility := None\<rparr>)
       = TeamIdEq (ru_team_id ctx_alice) # filter_conditions no_options
   \<and> evidence_where ctx_alice (no_options\<lparr>q_visibility := Some ''team''\<rparr>)
       = TeamIdEq (ru_team_id ctx_alice) # filter_conditions no_options"
proof -
  have "''everyone'' \<notin> {''private'', ''team'', ''organization'', ''public''}" by simp
  from unknown_visibility_is_unrestricted [OF this] show ?thesis .
qed

section \<open>Caller filters and scope\<close>

text \<open>
  C3 says that what a caller sends can only narrow a scoped read. For the metrics, the
  \<open>team_id\<close> of the query string replaces the caller's team: Alice, of team 10, asks for
  team 20 and is given the metrics of team 20, which are not among her own. For the
  search, the page is cut after the filters are applied: with \<open>limit=1\<close> the filter
  \<open>category=web\<close> brings her older row into the page, in which the unfiltered search
  has her newest row only.
\<close>

theorem caller_options_widen_the_result:
  "compliance_metrics ctx_alice (no_metrics_options\<lparr>m_team_id := Some 20\<rparr>) example_store
     = [\<lparr>mt_task_category = Some ''api'', mt_total_verifications = 1,
         mt_unique_users = 1, mt_pass_rate = 87 / 100\<rparr>]
   \<and> compliance_metrics ctx_alice no_metrics_options example_store
     = [\<lparr>mt_task_category = Some ''web'', mt_total_verifications = 1,
         mt_unique_users = 1, mt_pass_rate = 87 / 100\<rparr>]
   \<and> returned_rows (search ctx_alice (private_first\<lparr>q_category := Some ''web''\<rparr>) alice_store)
     = [row_alice]
   \<and> returned_rows (search ctx_alice private_first alice_store) = [row_alice_api]"
  by (simp add: example_defs search_defs compliance_metrics_def metrics_where_def metric_of_def
        no_metrics_options_def private_first_def alice_store_def row_alice_api_def)

text \<open>
  C3, as the handlers have it. Search, for a fixed visibility: the caller's filters can
  only shrink the set of rows the WHERE clause selects; when the filtered search
  succeeds, the search without the filters succeeds as well, its \<open>count\<close> is at least as
  large, and every returned row is selected by the clause without the filters. Metrics:
  the rows aggregated are those of the team named by \<open>team_id\<close>, the caller's team when
  the parameter is missing; for that team, the date filters can only shrink the set of
  rows aggregated, and every category reported with the date filters is reported without
  them with counts at least as large.
\<close>

theorem filters_narrow_selected_rows:
  "set (select_where (evidence_where ctx q) (st_evidence st))
     \<subseteq> set (select_where (evidence_where ctx (clear_filters q)) (st_evidence st))
   \<and> (\<forall>p. search ctx q st = Inr p \<longrightarrow>
         (\<exists>p0. search ctx (clear_filters q) st = Inr p0 \<and> p_count p \<le> p_count p0)
         \<and> set (returned_rows (Inr p))
             \<subseteq> set (select_where (evidence_where ctx (clear_filters q)) (st_evidence st)))
   \<and> list_all (\<lambda>e. e_team_id e
                   = (case m_team_id mq of None \<Rightarrow> ru_team_id ctx | Some t \<Rightarrow> Some t))
         (select_where (metrics_where ctx mq) (st_evidence st))
   \<and> set (select_where (metrics_where ctx mq) (st_evidence st))
       \<subseteq> set (select_where (metrics_where ctx (clear_dates mq)) (st_evidence st))
   \<and> (\<forall>m \<in> set (compliance_metrics ctx mq st).
        \<exists>m0 \<in> set (compliance_metrics ctx (clear_dates mq) st).
          mt_task_category m0 = mt_task_category m
          \<and> mt_total_verifications m \<le> mt_total_verifications m0
          \<and> mt_unique_users m \<le> mt_unique_users m0)"
proof -
  let ?rows = "st_evidence st"
  have sub: "set (evidence_where ctx (clear_filters q)) \<subseteq> set (evidence_where ctx q)"
    by (simp add: evidence_where_clear_filters visibility_subset_where)
  have a: "set (select_where (evidence_where ctx q) ?rows)
             \<subseteq> set (select_where (evidence_where ctx (clear_filters q)) ?rows)"
    by (rule select_where_mono [OF sub])
  have b: "(\<exists>p0. search ctx (clear_filters q) st = Inr p0 \<and> p_count p \<le> p_count p0)
           \<and> set (returned_rows (Inr p))
               \<subseteq> set (select_where (evidence_where ctx (clear_filters q)) ?rows)"
    if ok: "search ctx q st = Inr p" for p
  proof -
    from returned_page_subset [OF ok] obtain l f where
      page: "set (map ev_row (p_evidence p)) \<subseteq> set (select_where (evidence_where ctx q) ?rows)"
      and cnt: "p_count p = length (select_where (evidence_where ctx q) ?rows)"
      and unamb: "\<not> list_ex ambiguous (evidence_where ctx q)"
      and lf: "parse_limit q = Some l" "parse_offset q = Some f" "0 \<le> l" "0 \<le> f"
              "l \<le> bigint_max" "f \<le> bigint_max"
      by blast
    from unamb sub have unamb0: "\<not> list_ex ambiguous (evidence_where ctx (clear_filters q))"
      by (auto simp: list_ex_iff)
    from search_succeeds [of "clear_filters q" l f ctx st] lf unamb0
    obtain p0 where p0: "search ctx (clear_filters q) st = Inr p0" by auto
    from returned_page_subset(2) [OF p0] cnt length_select_where_mono [OF sub, of ?rows]
    have le: "p_count p \<le> p_count p0" by simp
    have "set (returned_rows (Inr p))
             \<subseteq> set (select_where (evidence_where ctx (clear_filters q)) ?rows)"
      using page a by (simp add: returned_rows_def)
    with p0 le show ?thesis by blast
  qed
  have d: "list_all (\<lambda>e. e_team_id e
                       = (case m_team_id mq of None \<Rightarrow> ru_team_id ctx | Some t \<Rightarrow> Some t))
             (select_where (metrics_where ctx mq) ?rows)"
    by (auto simp: list_all_iff select_where_def metrics_where_def)
  have msub: "set (metrics_where ctx (clear_dates mq)) \<subseteq> set (metrics_where ctx mq)"
    by (simp add: metrics_where_def clear_dates_def)
  have e: "set (select_where (metrics_where ctx mq) ?rows)
             \<subseteq> set (select_where (metrics_where ctx (clear_dates mq)) ?rows)"
    by (rule select_where_mono [OF msub])
  have f: "\<forall>m \<in> set (compliance_metrics ctx mq st).
            \<exists>m0 \<in> set (compliance_metrics ctx (clear_dates mq) st).
              mt_task_category m0 = mt_task_category m
              \<and> mt_total_verifications m \<le> mt_total_verifications m0
              \<and> mt_unique_users m \<le> mt_unique_users m0"
    using compliance_metrics_narrow by blast
  from a b d e f show ?thesis by blast
qed

theorem filters_narrow_selected_rows_witness:
  "search ctx_alice (private_first\<lparr>q_category := Some ''web''\<rparr>) alice_store
     = Inr page_alice_web
   \<and> (\<exists>p0. search ctx_alice (clear_filters (private_first\<lparr>q_category := Some ''web''\<rparr>))
              alice_store = Inr p0 \<and> p_count page_alice_web \<le> p_count p0)
   \<and> set (returned_rows (Inr page_alice_web))
       \<subseteq> set (select_where
                (evidence_where ctx_alice
                   (clear_filters (private_first\<lparr>q_category := Some ''web''\<rparr>)))
                (st_evidence alice_store))"
proof -
  have h: "search ctx_alice (private_first\<lparr>q_category := Some ''web''\<rparr>) alice_store
             = Inr page_alice_web"
    by (simp add: example_defs search_defs private_first_def alice_store_def
        row_alice_api_def page_alice_web_def)
  from filters_narrow_selected_rows
         [of ctx_alice "private_first\<lparr>q_category := Some ''web''\<rparr>" alice_store] h
  show ?thesis by blast
qed

section \<open>Nesting of the visibility levels\<close>

text \<open>
  C4 says that the result of a private search is contained in that of a team search,
  that in the organization's, that in the public one. With \<open>limit=1\<close> Alice's private
  page holds her own row, while the pages for \<open>organization\<close> and \<open>public\<close> hold Bob's
  newer row only, so the chain breaks whatever the team page is. Before paging, a user
  without a team has the own row selected by \<open>private\<close> and no row by \<open>team\<close>.
\<close>

theorem visibility_pages_not_nested:
  "returned_rows (search ctx_alice private_first example_store) = [row_alice]
   \<and> returned_rows (search ctx_alice (private_first\<lparr>q_visibility := Some ''organization''\<rparr>)
        example_store) = [row_bob]
   \<and> returned_rows (search ctx_alice (private_first\<lparr>q_visibility := Some ''public''\<rparr>)
        example_store) = [row_bob]
   \<and> selected_rows ctx_no_team no_options ''private'' [row_no_team] = [row_no_team]
   \<and> selected_rows ctx_no_team no_options ''team'' [row_no_team] = []"
  by (simp add: example_defs search_defs private_first_def ctx_no_team_def row_no_team_def
        selected_rows_def)

text \<open>
  C4, as the handler has it, on the rows the WHERE clause selects (the rows \<open>count\<close>
  counts and the page is cut from), for fixed other options: the rows selected for
  \<open>team\<close> and for \<open>private\<close> are among those selected for \<open>organization\<close>, which are
  exactly those selected for \<open>public\<close>; the rows selected for \<open>private\<close> are among those
  for \<open>team\<close> when the caller has a team and every row of the caller carries it. A
  successful search returns rows of the selected ones and counts them.
\<close>

theorem visibility_narrowing_on_selected_rows:
  "set (selected_rows ctx q ''team'' rows) \<subseteq> set (selected_rows ctx q ''organization'' rows)
   \<and> selected_rows ctx q ''organization'' rows = selected_rows ctx q ''public'' rows
   \<and> set (selected_rows ctx q ''private'' rows)
       \<subseteq> set (selected_rows ctx q ''organization'' rows)
   \<and> (ru_team_id ctx \<noteq> None \<and> rows_carry_caller_team ctx rows \<longrightarrow>
        set (selected_rows ctx q ''private'' rows) \<subseteq> set (selected_rows ctx q ''team'' rows))
   \<and> (\<forall>v p. search ctx (q\<lparr>q_visibility := Some v\<rparr>) st = Inr p \<longrightarrow>
        set (returned_rows (Inr p)) \<subseteq> set (selected_rows ctx q v (st_evidence st))
        \<and> p_count p = length (selected_rows ctx q v (st_evidence st)))"
proof -
  have a: "set (selected_rows ctx q ''team'' rows)
             \<subseteq> set (selected_rows ctx q ''organization'' rows)"
    unfolding selected_rows_def
    by (rule select_where_mono) (auto simp: evidence_where_def visibility_conditions_def)
  have b: "selected_rows ctx q ''organization'' rows = selected_rows ctx q ''public'' rows"
    by (simp add: selected_rows_def evidence_where_def visibility_conditions_def)
  have c: "set (selected_rows ctx q ''private'' rows)
             \<subseteq> set (selected_rows ctx q ''organization'' rows)"
    unfolding selected_rows_def
    by (rule select_where_mono) (auto simp: evidence_where_def visibility_conditions_def)
  have d: "set (selected_rows ctx q ''private'' rows) \<subseteq> set (selected_rows ctx q ''team'' rows)"
    if "ru_team_id ctx \<noteq> None" "rows_carry_caller_team ctx rows"
    using that
    by (auto simp: selected_rows_def select_where_def evidence_where_def
        visibility_conditions_def rows_carry_caller_team_def list_all_iff)
  have e: "set (returned_rows (Inr p)) \<subseteq> set (selected_rows ctx q v (st_evidence st))
        \<and> p_count p = length (selected_rows ctx q v (st_evidence st))"
    if "search ctx (q\<lparr>q_visibility := Some v\<rparr>) st = Inr p" for v p
    using returned_page_subset(1,2) [OF that] by (simp add: returned_rows_def selected_rows_def)
  from a b c d e show ?thesis by blast
qed

theorem visibility_narrowing_on_selected_rows_witness:
  "ru_team_id ctx_alice \<noteq> None
   \<and> rows_carry_caller_team ctx_alice (st_evidence example_store)
   \<and> search ctx_alice (no_options\<lparr>q_visibility := Some ''private''\<rparr>) example_store
       = Inr page_alice_private
   \<and> set (selected_rows ctx_alice no_options ''private'' (st_evidence example_store))
       \<subseteq> set (selected_rows ctx_alice no_options ''team'' (st_evidence example_store))
   \<and> set (returned_rows (Inr page_alice_private))
       \<subseteq> set (selected_rows ctx_alice no_options ''private'' (st_evidence example_store))
   \<and> p_count page_alice_private
       = length (selected_rows ctx_alice no_options ''private'' (st_evidence example_store))"
proof -
  have t: "ru_team_id ctx_alice \<noteq> None" by (simp add: ctx_alice_def)
  have r: "rows_carry_caller_team ctx_alice (st_evidence example_store)"
    by (simp add: rows_carry_caller_team_def example_defs)
  have h: "search ctx_alice (no_options\<lparr>q_visibility := Some ''private''\<rparr>) example_store
             = Inr page_alice_private"
    by (simp add: example_defs search_defs page_alice_private_def)
  from visibility_narrowing_on_selected_rows
         [of ctx_alice no_options "st_evidence example_store" example_store]
       t r h
  show ?thesis by blast
qed

section \<open>Paging\<close>

text \<open>
  C6 says that a search never returns more than 100 rows. The handler passes
  \<open>parseInt(limit)\<close> to LIMIT as it is: with \<open>limit=101\<close> and 101 rows of her own, Alice
  is given 101 rows.
\<close>

theorem search_returns_more_than_100_rows:
  "length (returned_rows (search ctx_alice
     (no_options\<lparr>q_visibility := Some ''private'', q_limit := Some ''101''\<rparr>) many_store)) = 101"
proof -
  let ?q = "no_options\<lparr>q_visibility := Some ''private'', q_limit := Some ''101''\<rparr>"
  have ew: "evidence_where ctx_alice ?q = [UserIdEq (Some (ru_id ctx_alice))]"
    by (simp add: evidence_where_def visibility_conditions_def filter_conditions_def
        truthy_text_def no_options_def)
  have sel: "select_where [UserIdEq (Some (ru_id ctx_alice))] many_rows = many_rows"
    by (rule select_where_all) (auto simp: many_rows_def example_row_def ctx_alice_def)
  have len: "length many_rows = 101" by (simp add: many_rows_def)
  have lim: "parse_limit ?q = Some 101" "parse_offset ?q = Some 0"
    by (simp_all add: parse_limit_def parse_offset_def no_options_def)
  have ev: "st_evidence many_store = many_rows"
    by (simp add: many_store_def)
  have unamb: "\<not> ambiguous (UserIdEq (Some (ru_id ctx_alice)))"
    by (simp add: ambiguous_def users_columns_def)
  show ?thesis
    by (simp add: search_def Let_def returned_rows_def bigint_max_def ew sel len lim ev unamb)
qed

text \<open>
  C6, as the handler has it: \<open>limit\<close> is 100 and \<open>offset\<close> is 0 when the parameter is
  missing, and otherwise what \<open>parseInt\<close> reads from it; a successful search returns at
  most \<open>limit\<close> rows, so at most 100 when no \<open>limit\<close> is sent.
\<close>

theorem search_page_within_requested_limit:
  assumes "search ctx q st = Inr p"
  shows "int (length (p_evidence p)) \<le> p_limit p
       \<and> parse_limit q = Some (p_limit p) \<and> parse_offset q = Some (p_offset p)
       \<and> (q_limit q = None \<longrightarrow> p_limit p = 100 \<and> length (p_evidence p) \<le> 100)
       \<and> (q_offset q = None \<longrightarrow> p_offset p = 0)
       \<and> (\<forall>s. q_limit q = Some s \<longrightarrow> parseInt s = Some (p_limit p))
       \<and> (\<forall>s. q_offset q = Some s \<longrightarrow> parseInt s = Some (p_offset p))"
proof -
  have len: "int (length (p_evidence p)) \<le> p_limit p"
    by (rule search_page_length [OF assms])
  from returned_page_subset(4) [OF assms]
  have lf: "parse_limit q = Some (p_limit p)" "parse_offset q = Some (p_offset p)"
    by auto
  have dl: "p_limit p = 100 \<and> length (p_evidence p) \<le> 100" if "q_limit q = None"
    using that lf(1) len by (simp add: parse_limit_def)
  have df: "p_offset p = 0" if "q_offset q = None"
    using that lf(2) by (simp add: parse_offset_def)
  have sl: "parseInt s = Some (p_limit p)" if "q_limit q = Some s" for s
    using that lf(1) by (simp add: parse_limit_def)
  have sf: "parseInt s = Some (p_offset p)" if "q_offset q = Some s" for s
    using that lf(2) by (simp add: parse_offset_def)
  from len lf dl df sl sf show ?thesis by blast
qed

theorem search_page_within_requested_limit_witness:
  "search ctx_alice (no_options\<lparr>q_visibility := Some ''private''\<rparr>) example_store
     = Inr page_alice_private
   \<and> int (length (p_evidence page_alice_private)) \<le> p_limit page_alice_private
   \<and> p_limit page_alice_private = 100 \<and> p_offset page_alice_private = 0"
proof -
  have h: "search ctx_alice (no_options\<lparr>q_visibility := Some ''private''\<rparr>) example_store
             = Inr page_alice_private"
    by (simp add: example_defs search_defs page_alice_private_def)
  have n: "q_limit (no_options\<lparr>q_visibility := Some ''private''\<rparr>) = None"
          "q_offset (no_options\<lparr>q_visibility := Some ''private''\<rparr>) = None"
    by (simp_all add: no_options_def)
  from search_page_within_requested_limit [OF h] h n show ?thesis by blast
qed

section \<open>Identity of a submission\<close>

text \<open>
  C5: the row an authenticated submission stores carries the caller's \<open>user_id\<close> and
  \<open>team_id\<close>, whatever \<open>user_id\<close> and \<open>team_id\<close> the body declares (the response does
  not depend on them); the legacy submission stores the \<open>user_id\<close> and \<open>project_id\<close> of
  the body, as the columns take them.
\<close>

theorem authenticated_submission_stamps_caller:
  "(\<forall>r st'. submit_evidence jsonb_in ctx b new_id now st = (Inr r, st') \<longrightarrow>
      e_user_id r = Some (ru_id ctx) \<and> e_team_id r = ru_team_id ctx
      \<and> st' = st\<lparr>st_evidence := st_evidence st @ [r]\<rparr>)
   \<and> submit_evidence jsonb_in ctx (b\<lparr>b_user_id := uid, b_team_id := tid\<rparr>) new_id now st
       = submit_evidence jsonb_in ctx b new_id now st
   \<and> (\<forall>r st'. legacy_submit_evidence jsonb_in b lid now st = (Inr r, st') \<longrightarrow>
        varchar_null 255 (b_user_id b) = Some (l_user_id r)
        \<and> varchar_null 255 (b_project_id b) = Some (l_project_id r)
        \<and> st' = st\<lparr>st_legacy := st_legacy st @ [r]\<rparr>)"
proof -
  have a: "e_user_id r = Some (ru_id ctx) \<and> e_team_id r = ru_team_id ctx
           \<and> st' = st\<lparr>st_evidence := st_evidence st @ [r]\<rparr>"
    if "submit_evidence jsonb_in ctx b new_id now st = (Inr r, st')" for r st'
    using that
    by (auto simp: submit_evidence_def Let_def split: if_splits option.splits)
  have b: "submit_evidence jsonb_in ctx (b\<lparr>b_user_id := uid, b_team_id := tid\<rparr>) new_id now st
             = submit_evidence jsonb_in ctx b new_id now st"
    by (simp add: submit_evidence_def Let_def split: option.splits)
  have c: "varchar_null 255 (b_user_id b) = Some (l_user_id r)
        \<and> varchar_null 255 (b_project_id b) = Some (l_project_id r)
        \<and> st' = st\<lparr>st_legacy := st_legacy st @ [r]\<rparr>"
    if "legacy_submit_evidence jsonb_in b lid now st = (Inr r, st')" for r st'
    using that
    by (auto simp: legacy_submit_evidence_def Let_def split: if_splits option.splits)
  from a b c show ?thesis by blast
qed

theorem authenticated_submission_stamps_caller_witness:
  "submit_evidence no_json_text ctx_alice body_web 100 1000 fresh_store
     = (Inr row_alice, fresh_store\<lparr>st_evidence := [row_alice]\<rparr>)
   \<and> b_user_id body_web = Some ''mallory'' \<and> b_team_id body_web = Some ''team-99''
   \<and> e_user_id row_alice = Some (ru_id ctx_alice) \<and> e_team_id row_alice = ru_team_id ctx_alice
   \<and> legacy_submit_evidence no_json_text body_web 1 1000 fresh_store
       = (Inr legacy_row_web, fresh_store\<lparr>st_legacy := [legacy_row_web]\<rparr>)
   \<and> varchar_null 255 (b_user_id body_web) = Some (l_user_id legacy_row_web)"
proof -
  have h: "submit_evidence no_json_text ctx_alice body_web 100 1000 fresh_store
             = (Inr row_alice, fresh_store\<lparr>st_evidence := [row_alice]\<rparr>)"
    by (simp add: submit_evidence_def body_web_def fresh_store_def example_defs submit_defs
        del: fmap_of_list_simps)
  have l: "legacy_submit_evidence no_json_text body_web 1 1000 fresh_store
             = (Inr legacy_row_web, fresh_store\<lparr>st_legacy := [legacy_row_web]\<rparr>)"
    by (simp add: legacy_submit_evidence_def body_web_def fresh_store_def example_defs
        legacy_row_web_def submit_defs del: fmap_of_list_simps)
  have b: "b_user_id body_web = Some ''mallory''" "b_team_id body_web = Some ''team-99''"
    by (simp_all add: body_web_def)
  from authenticated_submission_stamps_caller
         [of no_json_text ctx_alice body_web 100 1000 fresh_store _ _ 1] h l
  have "e_user_id row_alice = Some (ru_id ctx_alice) \<and> e_team_id row_alice = ru_team_id ctx_alice
        \<and> varchar_null 255 (b_user_id body_web) = Some (l_user_id legacy_row_web)"
    by blast
  with h l b show ?thesis by simp
qed

section \<open>In-place update of a hook\<close>



section \<open>Linking knowledge to a project\<close>

text \<open>
  C8: when \<open>link\<close> has returned a row, a later call with the same project, type and
  knowledge id returns that same row and leaves the store as it is, whatever id and time
  the store would assign, and whatever author and valid scope are given; the first call
  has added at most that one row.
\<close>

theorem link_idempotent:
  assumes "link pid ktype kid scope by new_id now st = (Inr r, st1)"
  shows "link pid ktype kid scope by new_id' now' st1 = (Inr r, st1)
       \<and> (scope' \<in> set link_scopes \<longrightarrow>
            link pid ktype kid scope' by' new_id' now' st1 = (Inr r, st1))
       \<and> (st1 = st \<or> st1 = st\<lparr>st_links := st_links st @ [r]\<rparr>)
       \<and> r \<in> set (st_links st1)
       \<and> k_project_id r = Some pid
       \<and> k_knowledge_type r = ktype
       \<and> varchar 255 kid = Some (k_knowledge_id r)"
proof -
  from assms have ok: "ktype \<in> set knowledge_types" "scope \<in> set link_scopes"
    by (auto simp: link_def split: if_splits)
  with assms obtain ki where v: "varchar 255 kid = Some ki"
    by (auto simp: link_def split: option.splits)
  let ?P = "\<lambda>x. k_project_id x = Some pid \<and> k_knowledge_type x = ktype \<and> k_knowledge_id x = ki"
  have main: "find ?P (st_links st1) = Some r
              \<and> (st1 = st \<or> st1 = st\<lparr>st_links := st_links st @ [r]\<rparr>)"
  proof (cases "find ?P (st_links st)")
    case (Some r0)
    with assms ok v show ?thesis by (simp add: link_def)
  next
    case None
    with assms ok v have st1: "st1 = st\<lparr>st_links := st_links st @ [r]\<rparr>"
      and r: "r = \<lparr>k_id = new_id, k_project_id = Some pid,
                   k_knowledge_type = ktype, k_knowledge_id = ki,
                   k_scope = Some scope, k_created_at = Some now,
                   k_created_by = Some by\<rparr>"
      by (auto simp: link_def Let_def split: if_splits)
    have "?P r" by (simp add: r)
    with None have "find ?P (st_links st @ [r]) = Some r" by (rule find_append_new)
    with st1 show ?thesis by simp
  qed
  then have f: "find ?P (st_links st1) = Some r" ..
  then have mem: "r \<in> set (st_links st1)" and Pr: "?P r"
    by (auto simp: find_Some_iff)
  have a: "link pid ktype kid scope by new_id' now' st1 = (Inr r, st1)"
    by (rule link_found [OF f ok v])
  have b: "link pid ktype kid scope' by' new_id' now' st1 = (Inr r, st1)"
    if "scope' \<in> set link_scopes"
    by (rule link_found [OF f ok(1) that v])
  from a b main mem Pr v show ?thesis by simp
qed

theorem link_idempotent_witness:
  "link 30 ''standard'' ''std-42'' ''project'' 1 700 5000 example_store
     = (Inr example_link, example_store\<lparr>st_links := [example_link]\<rparr>)
   \<and> link 30 ''standard'' ''std-42'' ''project'' 1 701 6000
         (example_store\<lparr>st_links := [example_link]\<rparr>)
     = (Inr example_link, example_store\<lparr>st_links := [example_link]\<rparr>)"
proof -
  have h: "link 30 ''standard'' ''std-42'' ''project'' 1 700 5000 example_store
             = (Inr example_link, example_store\<lparr>st_links := [example_link]\<rparr>)"
    by (simp add: link_def varchar_def knowledge_types_def link_scopes_def example_link_def
        example_store_def Let_def)
  from link_idempotent [OF h, of 701 6000] h show ?thesis by blast
qed

section \<open>Submission followed by lookup\<close>




section \<open>The reported pass rate\<close>

text \<open>
  C10: every row of the compliance metrics has \<open>pass_rate\<close> 0.87, for every caller,
  every filter and every content of the evidence table.
\<close>

theorem compliance_pass_rate_constant:
  "\<forall>m \<in> set (compliance_metrics ctx q st). mt_pass_rate m = 87 / 100"
  by (auto simp: set_compliance_metrics metric_of_def Let_def)

theorem compliance_pass_rate_constant_witness:
  "compliance_metrics ctx_alice no_metrics_options example_store \<noteq> []
   \<and> mt_pass_rate (hd (compliance_metrics ctx_alice no_metrics_options example_store))
       = 87 / 100"
proof -
  have ne: "compliance_metrics ctx_alice no_metrics_options example_store \<noteq> []"
    by (simp add: compliance_metrics_def metrics_where_def select_where_def
        no_metrics_options_def example_defs)
  then have "hd (compliance_metrics ctx_alice no_metrics_options example_store)
               \<in> set (compliance_metrics ctx_alice no_metrics_options example_store)"
    by (rule hd_in_set)
  with compliance_pass_rate_constant [of ctx_alice no_metrics_options example_store] ne
  show ?thesis by blast
qed

end
